theory Spec2Isabelle
  imports
    Main
    "HOL-Library.Word"
    "HOL-Library.AList"
    "HOL-Library.List_Lexorder"
    "HOL-Library.Char_ord"
begin

unbundle bit_operations_syntax

section \<open>Data model of vita\_rename.go\<close>

text \<open>
  A Go \<^verbatim>\<open>[]byte\<close> is a list of 8-bit words.  The only caller of \<^verbatim>\<open>parseSfo\<close>
  passes \<^verbatim>\<open>make([]byte, 10000000)\<close>, a slice whose capacity equals its length, so a
  slice is modelled by the list of its elements and the bound of a slice expression
  is the length of that list.  A Go \<^verbatim>\<open>string\<close> is a sequence of bytes: a HOL
  \<^typ>\<open>string\<close>, whose characters are 8-bit.  \<^verbatim>\<open>int16\<close> and \<^verbatim>\<open>int32\<close> are words, read as
  signed numbers by \<^const>\<open>sint\<close>; their addition wraps around.
\<close>

type_synonym byte = "8 word"
type_synonym int16 = "16 word"
type_synonym int32 = "32 word"

record Header =
  Magic :: int32
  Version :: int32
  KeyOffset :: int32
  DataOffset :: int32
  Entries :: int32

text \<open>The first field of \<^verbatim>\<open>Index\<close> is \<^verbatim>\<open>KeyOffset\<close> in the source; it is \<open>IKeyOffset\<close>
  here because the header has a field of the same name.\<close>

record Index =
  IKeyOffset :: int16
  ParamFmt :: int16
  ParamLength :: int32
  ParamMaxLength :: int32
  DataTableOffset :: int32

record NameData =
  title :: string
  appVer :: string
  version :: string
  titleId :: string
  region :: string
  ac :: int

text \<open>A Go \<^verbatim>\<open>map[string]string\<close>: an association list with at most one pair per key
  (\<^const>\<open>AList.update\<close> replaces in place), read through \<^const>\<open>map_of\<close>.\<close>

type_synonym gomap = "(string \<times> string) list"

definition regions :: gomap where
  "regions =
    [(''PCSB'', ''EUR''), (''VCES'', ''EUR''), (''VLES'', ''EUR''), (''PCSF'', ''EUR''),
     (''PCSE'', ''USA''), (''PCSA'', ''USA''), (''PCSD'', ''USA''), (''VCUS'', ''USA''),
     (''VLUS'', ''USA''),
     (''PCSG'', ''JAP''), (''PCSC'', ''JAP''), (''VCJS'', ''JAP''), (''VLJM'', ''JAP''),
     (''VLJS'', ''JAP''),
     (''PCSH'', ''ASIA''), (''VCAS'', ''ASIA''), (''VLAS'', ''ASIA'')]"

text \<open>\<^verbatim>\<open>m[k]\<close> without the \<^verbatim>\<open>ok\<close> result: the zero value \<^verbatim>\<open>""\<close> for a missing key.\<close>

definition lookup :: "gomap \<Rightarrow> string \<Rightarrow> string" where
  "lookup m k = (case map_of m k of None \<Rightarrow> [] | Some v \<Rightarrow> v)"

section \<open>Errors and panics\<close>

text \<open>The error values the program can see, and the two ways it stops: \<^verbatim>\<open>check\<close>
  panics with an error, and the runtime panics on a slice expression out of range.
  Nothing in the program recovers from a panic.\<close>

datatype goerror = EOF | ErrUnexpectedEOF | LinkError

datatype panic = Panic goerror | SliceBoundsOutOfRange

definition check :: "goerror option \<Rightarrow> panic option" where
  "check e = (case e of None \<Rightarrow> None | Some err \<Rightarrow> if err = EOF then None else Some (Panic err))"

text \<open>The slice expression \<^verbatim>\<open>s[lo:hi]\<close>, for a byte slice with capacity = length and for
  a string.\<close>

definition slice_of :: "'a list \<Rightarrow> int \<Rightarrow> int \<Rightarrow> panic + 'a list" where
  "slice_of s lo hi =
    (if 0 \<le> lo \<and> lo \<le> hi \<and> hi \<le> int (length s)
     then Inr (take (nat (hi - lo)) (drop (nat lo) s))
     else Inl SliceBoundsOutOfRange)"

section \<open>Library functions the decoder calls\<close>

text \<open>\<^verbatim>\<open>fmt.Sprintf("%s", b)\<close> of a byte slice, and \<^verbatim>\<open>[]byte(s)\<close>.\<close>

definition string_of_bytes :: "byte list \<Rightarrow> string" where
  "string_of_bytes bs = map (\<lambda>b. char_of (unat b)) bs"

definition bytes_of_string :: "string \<Rightarrow> byte list" where
  "bytes_of_string s = map of_char s"

text \<open>\<^verbatim>\<open>binary.LittleEndian\<close> on 2 and 4 bytes.\<close>

definition le16 :: "byte list \<Rightarrow> int16" where
  "le16 bs = ucast (bs ! 0) OR push_bit 8 (ucast (bs ! 1))"

definition le32 :: "byte list \<Rightarrow> int32" where
  "le32 bs =
     ucast (bs ! 0) OR push_bit 8 (ucast (bs ! 1)) OR
     push_bit 16 (ucast (bs ! 2)) OR push_bit 24 (ucast (bs ! 3))"

text \<open>
  \<^verbatim>\<open>binary.Read(buffer, order, &v)\<close> for a value of \<open>sz\<close> bytes, on a
  \<^verbatim>\<open>bytes.Buffer\<close> whose unread part is \<open>buffer\<close>.  It is \<^verbatim>\<open>io.ReadFull\<close>: on an
  empty buffer the error is \<^verbatim>\<open>io.EOF\<close>, on fewer than \<open>sz\<close> bytes
  \<^verbatim>\<open>io.ErrUnexpectedEOF\<close> (the bytes are consumed), and otherwise \<open>sz\<close> bytes are
  taken.  The result is the error, the bytes read and the rest of the buffer.
\<close>

definition binary_Read :: "nat \<Rightarrow> byte list \<Rightarrow> goerror option \<times> byte list \<times> byte list" where
  "binary_Read sz buffer =
    (if buffer = [] then (Some EOF, [], [])
     else if length buffer < sz then (Some ErrUnexpectedEOF, [], [])
     else (None, take sz buffer, drop sz buffer))"

definition decodeHeader :: "byte list \<Rightarrow> Header" where
  "decodeHeader raw =
    \<lparr>Magic = le32 (take 4 raw), Version = le32 (take 4 (drop 4 raw)),
     KeyOffset = le32 (take 4 (drop 8 raw)), DataOffset = le32 (take 4 (drop 12 raw)),
     Entries = le32 (take 4 (drop 16 raw))\<rparr>"

definition decodeIndex :: "byte list \<Rightarrow> Index" where
  "decodeIndex raw =
    \<lparr>IKeyOffset = le16 (take 2 raw), ParamFmt = le16 (take 2 (drop 2 raw)),
     ParamLength = le32 (take 4 (drop 4 raw)), ParamMaxLength = le32 (take 4 (drop 8 raw)),
     DataTableOffset = le32 (take 4 (drop 12 raw))\<rparr>"

text \<open>\<^verbatim>\<open>Header{}\<close> and \<^verbatim>\<open>Index{}\<close>: what the variable holds when \<^verbatim>\<open>binary.Read\<close>
  returned an error that \<^verbatim>\<open>check\<close> lets through.\<close>

definition zeroHeader :: Header where
  "zeroHeader = \<lparr>Magic = 0, Version = 0, KeyOffset = 0, DataOffset = 0, Entries = 0\<rparr>"

definition zeroIndex :: Index where
  "zeroIndex =
    \<lparr>IKeyOffset = 0, ParamFmt = 0, ParamLength = 0, ParamMaxLength = 0, DataTableOffset = 0\<rparr>"

text \<open>\<^verbatim>\<open>bytes.Trim(s, "\x00")\<close> removes the byte at both ends of the slice.\<close>

definition Trim :: "byte list \<Rightarrow> byte \<Rightarrow> byte list" where
  "Trim s c = dropWhile (\<lambda>b. b = c) (rev (dropWhile (\<lambda>b. b = c) (rev s)))"

text \<open>\<^verbatim>\<open>bytes.Split(s, sep)\<close> for a separator of one byte: one piece more than there
  are separators, so the empty slice splits into one empty piece.\<close>

fun Split :: "byte list \<Rightarrow> byte \<Rightarrow> byte list list" where
  "Split [] sep = [[]]"
| "Split (b # bs) sep =
    (if b = sep then [] # Split bs sep
     else (case Split bs sep of [] \<Rightarrow> [[b]] | k # ks \<Rightarrow> (b # k) # ks))"

section \<open>safeString\<close>

text \<open>\<^verbatim>\<open>strings.NewReplacer\<close> with old strings of one byte each: every byte of the
  input that has an entry in the table is replaced by the entry's new string (the
  first entry for that byte), every other byte is copied.\<close>

definition Replace :: "(char \<times> string) list \<Rightarrow> string \<Rightarrow> string" where
  "Replace r s = concat (map (\<lambda>c. case map_of r c of None \<Rightarrow> [c] | Some new \<Rightarrow> new) s)"

definition safeReplacer :: "(char \<times> string) list" where
  "safeReplacer =
    [(char_of (0::nat), ''''), (char_of (13::nat), ''''), (char_of (10::nat), ''''),
     (char_of (92::nat), ''''), (char_of (34::nat), ''''), (CHR ''/'', ''''),
     (CHR '':'', ''''), (CHR ''*'', ''''), (CHR ''?'', ''''), (CHR ''<'', ''''),
     (CHR ''>'', ''''), (CHR ''|'', '''')]"

definition safeString :: "string \<Rightarrow> string" where
  "safeString s = Replace safeReplacer s"

section \<open>parseSfo\<close>

text \<open>One line of the verbose output of the loop, \<^verbatim>\<open>[in] (start-end) 'k' -> 'm[k]'\<close>:
  the model keeps these lines as the trace of the entries the loop has decoded.\<close>

type_synonym logline = "nat \<times> int \<times> int \<times> string \<times> string"

text \<open>The body of the loop over the keys (lines 99 to 120): the unread part of the
  buffer, the map and the printed line after one iteration, or the panic.\<close>

definition parseEntry ::
  "Header \<Rightarrow> byte list \<Rightarrow> byte list \<Rightarrow> nat \<Rightarrow> byte list \<Rightarrow> gomap
    \<Rightarrow> panic + (byte list \<times> gomap \<times> logline)" where
  "parseEntry h sfob buffer n k m =
    (case binary_Read 16 buffer of (err, raw, buffer') \<Rightarrow>
      (case check err of Some p \<Rightarrow> Inl p
       | None \<Rightarrow>
          let i = (if err = None then decodeIndex raw else zeroIndex);
              start = DataOffset h + DataTableOffset i;
              end' = start + ParamLength i
          in (case slice_of sfob (sint start) (sint end') of Inl p \<Rightarrow> Inl p
              | Inr data_slice \<Rightarrow>
                 let ks = string_of_bytes k;
                     v = string_of_bytes data_slice;
                     m1 = AList.update ks (safeString v) m;
                     line = (n, sint start, sint end', ks, lookup m1 ks)
                 in (case map_of m1 ''TITLE_ID'' of None \<Rightarrow> Inr (buffer', m1, line)
                     | Some tid \<Rightarrow>
                        (case slice_of tid 0 4 of Inl p \<Rightarrow> Inl p
                         | Inr regCode \<Rightarrow>
                            (case map_of regions regCode of
                               None \<Rightarrow> Inr (buffer', m1, line)
                             | Some reg \<Rightarrow>
                                 Inr (buffer', AList.update ''REGION'' reg m1, line)))))))"

fun parseEntries ::
  "Header \<Rightarrow> byte list \<Rightarrow> byte list \<Rightarrow> nat \<Rightarrow> byte list list \<Rightarrow> gomap \<Rightarrow> logline list
    \<Rightarrow> panic + (gomap \<times> logline list)" where
  "parseEntries h sfob buffer n [] m log = Inr (m, log)"
| "parseEntries h sfob buffer n (k # keys) m log =
    (case parseEntry h sfob buffer n k m of Inl p \<Rightarrow> Inl p
     | Inr (buffer', m', line) \<Rightarrow> parseEntries h sfob buffer' (Suc n) keys m' (log @ [line]))"

text \<open>Lines 80 to 83: the header as read from the start of the buffer.\<close>

definition readHeader :: "byte list \<Rightarrow> panic + (Header \<times> byte list)" where
  "readHeader sfob =
    (case binary_Read 20 sfob of (err, raw, buffer) \<Rightarrow>
      (case check err of Some p \<Rightarrow> Inl p
       | None \<Rightarrow> Inr (if err = None then decodeHeader raw else zeroHeader, buffer)))"

text \<open>Lines 92 to 96: the keys, split out of the key table.\<close>

definition splitKeys :: "Header \<Rightarrow> byte list \<Rightarrow> panic + byte list list" where
  "splitKeys h sfob =
    (case slice_of sfob (sint (KeyOffset h)) (sint (DataOffset h)) of Inl p \<Rightarrow> Inl p
     | Inr keyslice \<Rightarrow> Inr (Split (Trim keyslice 0) 0))"

definition parseSfo :: "byte list \<Rightarrow> panic + (gomap \<times> logline list)" where
  "parseSfo sfob =
    (let m = [(''REGION'', ''UNK'')] in
     case readHeader sfob of Inl p \<Rightarrow> Inl p
     | Inr (h, buffer) \<Rightarrow>
        if Magic h \<noteq> 1179865088 then Inr (m, [])
        else (case splitKeys h sfob of Inl p \<Rightarrow> Inl p
              | Inr keys \<Rightarrow> parseEntries h sfob buffer 0 keys m []))"

section \<open>task\<close>

text \<open>\<^verbatim>\<open>NameData{}\<close>: every string empty and the counter 0.\<close>

definition emptyData :: NameData where
  "emptyData = \<lparr>title = [], appVer = [], version = [], titleId = [], region = [], ac = 0\<rparr>"

text \<open>Lines 157 to 171: what one decoded record does to \<^verbatim>\<open>data\<close>.  The comparison
  \<^verbatim>\<open>>\<close> of two Go strings is the order of \<^typ>\<open>string\<close>: lexicographic, byte by byte.
  \<^verbatim>\<open>data.ac\<close> is a Go \<^verbatim>\<open>int\<close> (64 bits) that counts members of one archive; it is
  an unbounded integer here.\<close>

definition foldRecord :: "NameData \<Rightarrow> gomap \<Rightarrow> NameData" where
  "foldRecord data m =
    (let d1 = (if lookup m ''CATEGORY'' = ''ac'' then data\<lparr>ac := ac data + 1\<rparr> else data)
     in (case map_of m ''APP_VER'' of None \<Rightarrow> d1
         | Some a \<Rightarrow>
            let d2 = (if lookup m ''APP_VER'' > appVer d1
                      then d1\<lparr>appVer := lookup m ''APP_VER''\<rparr> else d1);
                d3 = (if lookup m ''VERSION'' > version d2
                      then d2\<lparr>version := lookup m ''VERSION''\<rparr> else d2)
            in d3\<lparr>title := lookup m ''TITLE'', titleId := lookup m ''TITLE_ID'',
                  region := lookup m ''REGION''\<rparr>))"

text \<open>The loop of lines 137 to 173 on the records themselves, from \<^verbatim>\<open>NameData{}\<close>.\<close>

definition aggregate :: "gomap list \<Rightarrow> NameData" where
  "aggregate records = foldl foldRecord emptyData records"

text \<open>\<^verbatim>\<open>strings.HasSuffix\<close>.\<close>

definition HasSuffix :: "string \<Rightarrow> string \<Rightarrow> bool" where
  "HasSuffix s suffix =
    (length suffix \<le> length s \<and> drop (length s - length suffix) s = suffix)"

text \<open>A member of the archive as the loop sees it: its name, the error of
  \<^verbatim>\<open>m.Open\<close> or \<^verbatim>\<open>rc.Read\<close> that \<^verbatim>\<open>check\<close> is given, and the slice \<^verbatim>\<open>sfob\<close> as it
  is after the read.\<close>

record Member =
  Name :: string
  ReadErr :: "goerror option"
  Sfob :: "byte list"

text \<open>The loop over the members: the descriptor after the last member, or the panic
  of \<^verbatim>\<open>check\<close> or of \<^verbatim>\<open>parseSfo\<close>.\<close>

fun foldMembers :: "NameData \<Rightarrow> Member list \<Rightarrow> panic + NameData" where
  "foldMembers data [] = Inr data"
| "foldMembers data (e # es) =
    (if HasSuffix (Name e) ''param.sfo'' then
       (case check (ReadErr e) of Some p \<Rightarrow> Inl p
        | None \<Rightarrow>
           (case parseSfo (Sfob e) of Inl p \<Rightarrow> Inl p
            | Inr (m, log) \<Rightarrow> foldMembers (foldRecord data m) es))
     else foldMembers data es)"

text \<open>\<^verbatim>\<open>%d\<close> of \<^verbatim>\<open>fmt.Sprintf\<close>.\<close>

fun digits :: "nat \<Rightarrow> string" where
  "digits n =
    (if n < 10 then [char_of (48 + n)] else digits (n div 10) @ [char_of (48 + n mod 10)])"

definition Itoa :: "int \<Rightarrow> string" where
  "Itoa i = (if i < 0 then CHR ''-'' # digits (nat (- i)) else digits (nat i))"

text \<open>Line 179.\<close>

definition newName :: "NameData \<Rightarrow> string" where
  "newName data =
    title data @ '' ('' @ appVer data @ ''-'' @ version data @ ''-'' @ Itoa (ac data)
      @ '') ['' @ titleId data @ ''] ('' @ region data @ '').zip''"

text \<open>What \<^verbatim>\<open>task\<close> does to the directory.  The directory is the set of the names
  that exist in it: \<^verbatim>\<open>os.Stat\<close> reports a name that is not in the set as not existing,
  and \<^verbatim>\<open>os.Rename\<close> moves a name that exists and returns a \<^verbatim>\<open>*LinkError\<close> for one
  that does not.  The result says what the function printed or how it stopped,
  together with the directory it leaves.\<close>

datatype outcome = Nothing | Moved string | FileExists string | Panicked panic

definition task :: "string \<Rightarrow> goerror option \<Rightarrow> Member list \<Rightarrow> string set \<Rightarrow> outcome \<times> string set"
  where
  "task file openErr members dir =
    (case check openErr of Some p \<Rightarrow> (Panicked p, dir)
     | None \<Rightarrow>
        (case foldMembers emptyData members of Inl p \<Rightarrow> (Panicked p, dir)
         | Inr data \<Rightarrow>
            if title data \<noteq> [] then
              (if newName data \<notin> dir then
                 (if file \<in> dir then (Moved (newName data), insert (newName data) (dir - {file}))
                  else (Panicked (Panic LinkError), dir))
               else (FileExists (newName data), dir))
            else (Nothing, dir)))"

section \<open>Example buffers\<close>

text \<open>A header with the magic of the format and the given key offset, data offset and
  number of entries (each below 256), and an index entry with the given length and
  offset in the data table.\<close>

definition hdr :: "byte \<Rightarrow> byte \<Rightarrow> byte \<Rightarrow> byte list" where
  "hdr ko dat en = [0x00, 0x50, 0x53, 0x46, 1, 1, 0, 0, ko, 0, 0, 0, dat, 0, 0, 0, en, 0, 0, 0]"

definition idx :: "byte \<Rightarrow> byte \<Rightarrow> byte list" where
  "idx len off = [0, 0, 4, 2, len, 0, 0, 0, len, 0, 0, 0, off, 0, 0, 0]"

text \<open>One entry \<^verbatim>\<open>TITLE_ID\<close> whose value is \<^verbatim>\<open>PCSB00000\<close> and a NUL: 58 bytes, keys from
  36, data from the given offset, the value of the given length.\<close>

definition sfoTitleId :: "byte \<Rightarrow> byte \<Rightarrow> byte list" where
  "sfoTitleId dat len =
    hdr 36 dat 1 @ idx len 0 @ bytes_of_string ''TITLE_ID'' @ [0, 0, 0, 0]
      @ bytes_of_string ''PCSB00000'' @ [0]"

text \<open>One key \<^verbatim>\<open>A\<close> with the value \<^verbatim>\<open>x\<close>, in a header that announces no entry.\<close>

definition sfoNoEntries :: "byte list" where
  "sfoNoEntries = hdr 36 40 0 @ idx 1 0 @ bytes_of_string ''A'' @ [0, 0, 0] @ bytes_of_string ''x''"

section \<open>The sanitizer\<close>

lemma safeReplacer_new: "map_of safeReplacer c = Some new \<Longrightarrow> new = []"
  by (auto simp: safeReplacer_def split: if_splits)

lemma Replace_safeReplacer:
  "Replace safeReplacer s = filter (\<lambda>c. map_of safeReplacer c = None) s"
proof (induction s)
  case Nil
  show ?case by (simp add: Replace_def)
next
  case (Cons c s)
  show ?case
  proof (cases "map_of safeReplacer c")
    case None
    with Cons show ?thesis by (simp add: Replace_def)
  next
    case (Some new)
    with safeReplacer_new [OF Some] Cons show ?thesis by (simp add: Replace_def)
  qed
qed

text \<open>
  C10.  \<^verbatim>\<open>safeString\<close> is idempotent: applied to its own output it returns that output,
  for every string, and the output holds none of the bytes the replacer removes.
\<close>

theorem safeString_idempotent:
  "safeString (safeString s) = safeString s
    \<and> set (safeString s) \<inter> fst ` set safeReplacer = {}"
proof -
  have "map_of safeReplacer c = None \<longleftrightarrow> c \<notin> fst ` set safeReplacer" for c
    by (simp add: map_of_eq_None_iff)
  then show ?thesis
    by (auto simp: safeString_def Replace_safeReplacer)
qed

theorem safeString_idempotent_example:
  "safeString (safeString ''a/b:c*d'') = ''abcd''"
  using safeString_idempotent [of "''a/b:c*d''"] by code_simp

end
